theory Spec2Isabelle
  imports Complex_Main
begin

section \<open>JavaScript numbers\<close>

text \<open>
  The worker computes with JavaScript numbers. The model keeps the three non-finite
  values of a number apart from the finite ones, because the worker's divisions and
  its reads of absent fields produce them. A finite number is modelled by the exact
  rational it denotes: the rounding of IEEE doubles to 53 bits and the overflow of
  huge values to an infinity are not modelled, and the two zeros of a double are
  one value here.
\<close>

datatype jsnum = Fin rat | PosInf | NegInf | NaN

fun js_neg :: "jsnum \<Rightarrow> jsnum" where
  "js_neg (Fin a) = Fin (- a)"
| "js_neg PosInf = NegInf"
| "js_neg NegInf = PosInf"
| "js_neg NaN = NaN"

fun js_abs :: "jsnum \<Rightarrow> jsnum" where
  "js_abs (Fin a) = Fin \<bar>a\<bar>"
| "js_abs PosInf = PosInf"
| "js_abs NegInf = PosInf"
| "js_abs NaN = NaN"

fun js_add :: "jsnum \<Rightarrow> jsnum \<Rightarrow> jsnum" where
  "js_add NaN y = NaN"
| "js_add x NaN = NaN"
| "js_add (Fin a) (Fin b) = Fin (a + b)"
| "js_add (Fin a) y = y"
| "js_add x (Fin b) = x"
| "js_add PosInf PosInf = PosInf"
| "js_add NegInf NegInf = NegInf"
| "js_add PosInf NegInf = NaN"
| "js_add NegInf PosInf = NaN"

definition js_sub :: "jsnum \<Rightarrow> jsnum \<Rightarrow> jsnum" where
  "js_sub x y = js_add x (js_neg y)"

text \<open>The sign of a number: \<open>None\<close> for NaN, otherwise \<open>-1\<close>, \<open>0\<close> or \<open>1\<close>.\<close>

fun js_sign :: "jsnum \<Rightarrow> int option" where
  "js_sign (Fin a) = Some (if a < 0 then - 1 else if a = 0 then 0 else 1)"
| "js_sign PosInf = Some 1"
| "js_sign NegInf = Some (- 1)"
| "js_sign NaN = None"

definition inf_of_sign :: "int \<Rightarrow> jsnum" where
  "inf_of_sign s = (if s < 0 then NegInf else PosInf)"

fun js_mul :: "jsnum \<Rightarrow> jsnum \<Rightarrow> jsnum" where
  "js_mul (Fin a) (Fin b) = Fin (a * b)"
| "js_mul x y =
     (case (js_sign x, js_sign y) of
        (Some s, Some t) \<Rightarrow> (if s * t = 0 then NaN else inf_of_sign (s * t))
      | _ \<Rightarrow> NaN)"

fun js_div :: "jsnum \<Rightarrow> jsnum \<Rightarrow> jsnum" where
  "js_div NaN y = NaN"
| "js_div x NaN = NaN"
| "js_div (Fin a) (Fin b) =
     (if b = 0 then (if a = 0 then NaN else if 0 < a then PosInf else NegInf)
      else Fin (a / b))"
| "js_div (Fin a) y = Fin 0"
| "js_div x (Fin b) = (if b < 0 then js_neg x else x)"
| "js_div x y = NaN"

text \<open>\<open>Math.round\<close>: the nearest integer, a tie going up.\<close>

fun js_round :: "jsnum \<Rightarrow> jsnum" where
  "js_round (Fin a) = Fin (of_int \<lfloor>a + 1 / 2\<rfloor>)"
| "js_round x = x"

text \<open>The comparisons \<open>x > y\<close> and \<open>x <= y\<close>: both are false when an operand is NaN.\<close>

fun js_less :: "jsnum \<Rightarrow> jsnum \<Rightarrow> bool" where
  "js_less NaN y = False"
| "js_less x NaN = False"
| "js_less (Fin a) (Fin b) = (a < b)"
| "js_less NegInf NegInf = False"
| "js_less NegInf y = True"
| "js_less x NegInf = False"
| "js_less PosInf y = False"
| "js_less x PosInf = True"

definition js_gt :: "jsnum \<Rightarrow> jsnum \<Rightarrow> bool" where
  "js_gt x y = js_less y x"

definition js_le :: "jsnum \<Rightarrow> jsnum \<Rightarrow> bool" where
  "js_le x y = (js_less x y \<or> (x \<noteq> NaN \<and> x = y))"

text \<open>
  A field that may be \<open>undefined\<close> is an option. \<open>to_number\<close> is the coercion that
  arithmetic and comparisons apply to such a value.
\<close>

definition to_number :: "jsnum option \<Rightarrow> jsnum" where
  "to_number v = (case v of None \<Rightarrow> NaN | Some x \<Rightarrow> x)"

section \<open>Strings\<close>

text \<open>
  Strings are lists of 8-bit characters; the worker's CSV fields, memos and identifiers
  are ASCII.
\<close>

definition startsWith :: "string \<Rightarrow> string \<Rightarrow> bool" where
  "startsWith s p = (take (length p) s = p)"

definition str_includes :: "string \<Rightarrow> char \<Rightarrow> bool" where
  "str_includes s c = (c \<in> set s)"

definition padEnd :: "string \<Rightarrow> nat \<Rightarrow> char \<Rightarrow> string" where
  "padEnd s n c = s @ replicate (n - length s) c"

fun split_on :: "char \<Rightarrow> string \<Rightarrow> string list" where
  "split_on c [] = [[]]"
| "split_on c (x # xs) =
     (if x = c then [] # split_on c xs
      else (case split_on c xs of
              [] \<Rightarrow> [[x]]
            | p # ps \<Rightarrow> (x # p) # ps))"

fun index_of :: "'a \<Rightarrow> 'a list \<Rightarrow> nat option" where
  "index_of x [] = None"
| "index_of x (y # ys) = (if x = y then Some 0 else map_option Suc (index_of x ys))"

definition digit_val :: "char \<Rightarrow> nat option" where
  "digit_val c =
     (case index_of c ''0123456789abcdef'' of
        Some d \<Rightarrow> Some d
      | None \<Rightarrow> map_option (\<lambda>d. d + 10) (index_of c ''ABCDEF''))"

definition is_digit :: "nat \<Rightarrow> char \<Rightarrow> bool" where
  "is_digit radix c = (case digit_val c of None \<Rightarrow> False | Some d \<Rightarrow> d < radix)"

definition digits_value :: "nat \<Rightarrow> string \<Rightarrow> nat" where
  "digits_value radix ds =
     foldl (\<lambda>acc c. acc * radix + (case digit_val c of None \<Rightarrow> 0 | Some d \<Rightarrow> d)) 0 ds"

text \<open>The white space that \<open>parseInt\<close> and \<open>parseFloat\<close> skip, among 8-bit characters.\<close>

definition is_space :: "char \<Rightarrow> bool" where
  "is_space c = (c \<in> set [CHR 0x09, CHR 0x0A, CHR 0x0B, CHR 0x0C, CHR 0x0D, CHR 0x20, CHR 0xA0])"

text \<open>The decimal rendering of a natural number, as a template literal renders it.\<close>

fun show_nat :: "nat \<Rightarrow> string" where
  "show_nat n =
     (if n < 10 then [''0123456789'' ! n]
      else show_nat (n div 10) @ [''0123456789'' ! (n mod 10)])"

declare show_nat.simps [simp del]

section \<open>The money and quantity codec\<close>

text \<open>
  \<open>parseInt(string)\<close> without a radix: leading white space is skipped, a sign is read,
  a prefix \<open>0x\<close> or \<open>0X\<close> selects radix 16, and the longest run of digits is the value;
  no digit at all gives NaN.
\<close>

definition parseInt :: "string \<Rightarrow> jsnum" where
  "parseInt str =
     (let s = dropWhile is_space str;
          neg = (case s of [] \<Rightarrow> False | c # _ \<Rightarrow> c = CHR ''-'');
          s1 = (case s of [] \<Rightarrow> [] | c # r \<Rightarrow> if c = CHR ''-'' \<or> c = CHR ''+'' then r else s);
          hex = (take 2 s1 = ''0x'' \<or> take 2 s1 = ''0X'');
          radix = (if hex then 16 else 10);
          s2 = (if hex then drop 2 s1 else s1);
          ds = takeWhile (is_digit radix) s2
      in if ds = [] then NaN
         else Fin (if neg then - of_nat (digits_value radix ds) else of_nat (digits_value radix ds)))"

text \<open>
  \<^verbatim>\<open>
  function parseAmount(amount, inputPrecision, outputFactor) {
    const [fixedAmount, decimalAmount = ''] = `${amount}`.split('.');
    return parseInt(`${fixedAmount}${decimalAmount.padEnd(inputPrecision, '0')}`) * outputFactor;
  }
  \<close>
  The argument is the text of the amount.
\<close>

definition parseAmount :: "string \<Rightarrow> nat \<Rightarrow> int \<Rightarrow> jsnum" where
  "parseAmount amount inputPrecision outputFactor =
     (let parts = split_on CHR ''.'' amount;
          fixedAmount = (case parts of [] \<Rightarrow> [] | f # _ \<Rightarrow> f);
          decimalAmount = (case parts of _ # d # _ \<Rightarrow> d | _ \<Rightarrow> [])
      in js_mul (parseInt (fixedAmount @ padEnd decimalAmount inputPrecision CHR ''0''))
                (Fin (of_int outputFactor)))"

definition parseMoney :: "string \<Rightarrow> jsnum" where
  "parseMoney amount = parseAmount amount 2 10"

definition parseT212StockQuantity :: "string \<Rightarrow> jsnum" where
  "parseT212StockQuantity amount = parseAmount amount 10 1"

section \<open>Import identities\<close>

definition IMPORT_ID_VERSION :: nat where
  "IMPORT_ID_VERSION = 14"

definition IMPORT_PREFIX :: string where
  "IMPORT_PREFIX = ''T212-''"

definition VERSIONED_IMPORT_PREFIX :: string where
  "VERSIONED_IMPORT_PREFIX = IMPORT_PREFIX @ ''v'' @ show_nat IMPORT_ID_VERSION @ '':''"

text \<open>
  \<open>createImportId\<close> hashes its argument with SHA-256 from the platform's \<open>crypto\<close>
  module. The hash, with its hexadecimal rendering, is the parameter \<open>sha256_hex\<close>.
\<close>

definition createImportId :: "(string \<Rightarrow> string) \<Rightarrow> string \<Rightarrow> string" where
  "createImportId sha256_hex data = take 36 (VERSIONED_IMPORT_PREFIX @ sha256_hex data)"

section \<open>The transaction parser\<close>

text \<open>
  \<open>parseFloat\<close>: leading white space is skipped and the longest prefix that is a
  decimal literal (a sign, \<open>Infinity\<close> or digits with an optional fraction and an
  optional exponent) is the value; no such prefix gives NaN.
\<close>

definition exponent_part :: "string \<Rightarrow> int" where
  "exponent_part r =
     (case r of
        [] \<Rightarrow> 0
      | c # r1 \<Rightarrow>
          if c = CHR ''e'' \<or> c = CHR ''E'' then
            (let eneg = (case r1 of [] \<Rightarrow> False | d # _ \<Rightarrow> d = CHR ''-'');
                 r2 = (case r1 of [] \<Rightarrow> [] | d # r' \<Rightarrow> if d = CHR ''-'' \<or> d = CHR ''+'' then r' else r1);
                 ed = takeWhile (is_digit 10) r2
             in if ed = [] then 0
                else if eneg then - int (digits_value 10 ed) else int (digits_value 10 ed))
          else 0)"

definition scale10 :: "rat \<Rightarrow> int \<Rightarrow> rat" where
  "scale10 m e = (if 0 \<le> e then m * 10 ^ nat e else m / 10 ^ nat (- e))"

definition parseFloat :: "string \<Rightarrow> jsnum" where
  "parseFloat str =
     (let s = dropWhile is_space str;
          neg = (case s of [] \<Rightarrow> False | c # _ \<Rightarrow> c = CHR ''-'');
          s1 = (case s of [] \<Rightarrow> [] | c # r \<Rightarrow> if c = CHR ''-'' \<or> c = CHR ''+'' then r else s)
      in if startsWith s1 ''Infinity'' then (if neg then NegInf else PosInf)
         else
           (let ip = takeWhile (is_digit 10) s1;
                r1 = drop (length ip) s1;
                has_dot = (case r1 of [] \<Rightarrow> False | c # _ \<Rightarrow> c = CHR ''.'');
                fp = (if has_dot then takeWhile (is_digit 10) (tl r1) else []);
                r2 = (if has_dot then drop (length fp) (tl r1) else r1)
            in if ip = [] \<and> fp = [] then NaN
               else
                 (let mant = of_nat (digits_value 10 (ip @ fp)) / 10 ^ length fp;
                      v = scale10 mant (exponent_part r2)
                  in Fin (if neg then - v else v))))"

text \<open>The three optional field transformers of the schema: an empty string is \<open>undefined\<close>.\<close>

definition optionalString :: "string \<Rightarrow> string option" where
  "optionalString val = (if val \<noteq> [] then Some val else None)"

definition optionalMoney :: "string \<Rightarrow> jsnum option" where
  "optionalMoney val = (if val \<noteq> [] then Some (parseMoney val) else None)"

definition optionalFloat :: "string \<Rightarrow> jsnum option" where
  "optionalFloat val = (if val \<noteq> [] then Some (parseFloat val) else None)"

datatype Trading212Action =
    Deposit | Withdrawal | MarketBuy | MarketSell | Dividend
  | InterestOnCash | LendingInterest | CurrencyConversion | NewCardCost

fun action_string :: "Trading212Action \<Rightarrow> string" where
  "action_string Deposit = ''Deposit''"
| "action_string Withdrawal = ''Withdrawal''"
| "action_string MarketBuy = ''Market buy''"
| "action_string MarketSell = ''Market sell''"
| "action_string Dividend = ''Dividend (Dividend)''"
| "action_string InterestOnCash = ''Interest on cash''"
| "action_string LendingInterest = ''Lending interest''"
| "action_string CurrencyConversion = ''Currency conversion''"
| "action_string NewCardCost = ''New card cost''"

definition all_actions :: "Trading212Action list" where
  "all_actions = [Deposit, Withdrawal, MarketBuy, MarketSell, Dividend,
                  InterestOnCash, LendingInterest, CurrencyConversion, NewCardCost]"

definition action_of_string :: "string \<Rightarrow> Trading212Action option" where
  "action_of_string s = find (\<lambda>a. action_string a = s) all_actions"

text \<open>
  The parsed transaction. \<open>timestamp\<close> holds the text that the schema wraps in a
  \<open>dayjs\<close> object; the renderings of that object are parameters of the classifier.
\<close>

record Trading212Transaction =
  action :: Trading212Action
  timestamp :: string
  isin :: "string option"
  ticker :: "string option"
  name :: "string option"
  shareCount :: "jsnum option"
  pricePerShare :: "jsnum option"
  pricePerShareCurrency :: "string option"
  exchangeRate :: "jsnum option"
  result :: "jsnum option"
  resultCurrency :: "string option"
  total_tx :: jsnum
  totalCurrency :: "string option"
  withholdingTax :: "jsnum option"
  withholdingTaxCurrency :: "string option"
  notes_tx :: "string option"
  id_tx :: string
  conversionFromAmount :: "jsnum option"
  conversionFromCurrency :: "string option"
  conversionToAmount :: "jsnum option"
  conversionToCurrency :: "string option"
  conversionFee :: "jsnum option"
  conversionFeeCurrency :: "string option"

text \<open>
  A row of the export maps column names to strings; a column that the export lacks is
  \<open>None\<close>. The schema reports every field that is not a string, and an action outside
  the enumeration.
\<close>

type_synonym raw_row = "string \<Rightarrow> string option"

datatype error =
    ValidationError "string list"
  | VersionConflictError "string option"
  | MemoParseError "string option"
  | NoPositionError string string

definition schema_columns :: "(string \<times> string) list" where
  "schema_columns =
     [(''action'', ''Action''),
      (''timestamp'', ''Time''),
      (''isin'', ''ISIN''),
      (''ticker'', ''Ticker''),
      (''name'', ''Name''),
      (''shareCount'', ''No. of shares''),
      (''pricePerShare'', ''Price / share''),
      (''pricePerShareCurrency'', ''Currency (Price / share)''),
      (''exchangeRate'', ''Exchange rate''),
      (''result'', ''Result''),
      (''resultCurrency'', ''Currency (Result)''),
      (''total'', ''Total''),
      (''totalCurrency'', ''Currency (Total)''),
      (''withholdingTax'', ''Withholding tax''),
      (''withholdingTaxCurrency'', ''Currency (Withholding tax)''),
      (''notes'', ''Notes''),
      (''id'', ''ID''),
      (''conversionFromAmount'', ''Currency conversion from amount''),
      (''conversionFromCurrency'', ''Currency (Currency conversion from amount)''),
      (''conversionToAmount'', ''Currency conversion to amount''),
      (''conversionToCurrency'', ''Currency (Currency conversion to amount)''),
      (''conversionFee'', ''Currency conversion fee''),
      (''conversionFeeCurrency'', ''Currency (Currency conversion fee)'')]"

definition field_invalid :: "raw_row \<Rightarrow> string \<times> string \<Rightarrow> bool" where
  "field_invalid data fc =
     (case data (snd fc) of
        None \<Rightarrow> True
      | Some v \<Rightarrow> fst fc = ''action'' \<and> action_of_string v = None)"

definition col :: "raw_row \<Rightarrow> string \<Rightarrow> string" where
  "col data c = (case data c of None \<Rightarrow> [] | Some v \<Rightarrow> v)"

definition parseTransaction :: "raw_row \<Rightarrow> error + Trading212Transaction" where
  "parseTransaction data =
     (let issues = map fst (filter (field_invalid data) schema_columns)
      in if issues \<noteq> [] then Inl (ValidationError issues)
         else Inr \<lparr>
           action = (case action_of_string (col data ''Action'') of None \<Rightarrow> Deposit | Some a \<Rightarrow> a),
           timestamp = col data ''Time'',
           isin = optionalString (col data ''ISIN''),
           ticker = optionalString (col data ''Ticker''),
           name = optionalString (col data ''Name''),
           shareCount = optionalFloat (col data ''No. of shares''),
           pricePerShare = optionalMoney (col data ''Price / share''),
           pricePerShareCurrency = optionalString (col data ''Currency (Price / share)''),
           exchangeRate = optionalFloat (col data ''Exchange rate''),
           result = optionalMoney (col data ''Result''),
           resultCurrency = optionalString (col data ''Currency (Result)''),
           total_tx = parseMoney (col data ''Total''),
           totalCurrency = optionalString (col data ''Currency (Total)''),
           withholdingTax = optionalMoney (col data ''Withholding tax''),
           withholdingTaxCurrency = optionalString (col data ''Currency (Withholding tax)''),
           notes_tx = optionalString (col data ''Notes''),
           id_tx = col data ''ID'',
           conversionFromAmount = optionalMoney (col data ''Currency conversion from amount''),
           conversionFromCurrency = optionalString (col data ''Currency (Currency conversion from amount)''),
           conversionToAmount = optionalMoney (col data ''Currency conversion to amount''),
           conversionToCurrency = optionalString (col data ''Currency (Currency conversion to amount)''),
           conversionFee = optionalMoney (col data ''Currency conversion fee''),
           conversionFeeCurrency = optionalString (col data ''Currency (Currency conversion fee)'')
         \<rparr>)"

section \<open>Ledger entries and the context of a run\<close>

datatype cleared_status = Cleared | Uncleared | Reconciled

record sub_entry =
  sub_amount :: jsnum
  sub_payee_name :: "string option"
  sub_payee_id :: "string option"
  sub_memo :: "string option"
  sub_category_id :: "string option"

text \<open>
  One record stands for the ledger's transactions, the ones to create and the ones to
  update. A property that an object lacks, or that is \<open>null\<close> or \<open>undefined\<close>, is
  \<open>None\<close>; no subtransactions is the empty list.
\<close>

record entry =
  account_id :: string
  date :: string
  cleared :: cleared_status
  amount :: "jsnum option"
  payee_name :: "string option"
  payee_id :: "string option"
  memo :: "string option"
  category_id :: "string option"
  flag_color :: "string option"
  approved :: "bool option"
  import_id :: "string option"
  id_entry :: "string option"
  subtransactions :: "sub_entry list"

record payee =
  p_id :: string
  p_name :: string

record instrument =
  i_isin :: string
  i_ticker :: string
  i_name :: string
  i_shortName :: string

text \<open>An open position of the broker: the ticker and the texts of its two numbers.\<close>

record open_position =
  pos_ticker :: string
  pos_quantity :: string
  pos_ppl :: string

record t212Position =
  t_quantity :: jsnum
  t_ppl :: jsnum

text \<open>
  What \<open>syncAccount\<close> has in hand once its fetches have returned, together with the
  library functions it calls: the SHA-256 digest in hexadecimal, the rendering of a
  number in a template literal, and the two renderings of a \<open>dayjs\<close> timestamp.
\<close>

record sync_context =
  BUDGET :: string
  ACCOUNT :: string
  STOCK_CATEGORY_ID :: string
  DIVIDEND_CATEGORY_ID :: string
  CONVERSION_FEE_CATEGORY_ID :: string
  today :: string
  accountCurrency :: string
  instruments :: "instrument list"
  openPositions :: "open_position list"
  payees :: "payee list"
  existingTransactions :: "entry list"
  sha256_hex :: "string \<Rightarrow> string"
  number_to_string :: "jsnum \<Rightarrow> string"
  dayjs_to_string :: "string \<Rightarrow> string"
  dayjs_format_date :: "string \<Rightarrow> string"

text \<open>A JavaScript \<open>Map\<close> keeps its keys in insertion order.\<close>

fun map_set :: "('k \<times> 'v) list \<Rightarrow> 'k \<Rightarrow> 'v \<Rightarrow> ('k \<times> 'v) list" where
  "map_set [] k v = [(k, v)]"
| "map_set (p # m) k v = (if fst p = k then (k, v) # m else p # map_set m k v)"

definition t212Positions :: "sync_context \<Rightarrow> (string \<times> t212Position) list" where
  "t212Positions ctx =
     foldl (\<lambda>m position.
              map_set m (pos_ticker position)
                \<lparr> t_quantity = parseT212StockQuantity (pos_quantity position),
                  t_ppl = parseMoney (pos_ppl position) \<rparr>)
           [] (openPositions ctx)"

definition category :: "string \<Rightarrow> string option" where
  "category env_id = (if env_id \<noteq> [] then Some env_id else None)"

definition or_null :: "string option \<Rightarrow> string option" where
  "or_null v = (case v of None \<Rightarrow> None | Some s \<Rightarrow> if s \<noteq> [] then Some s else None)"

definition tmpl :: "string option \<Rightarrow> string" where
  "tmpl v = (case v of None \<Rightarrow> ''undefined'' | Some s \<Rightarrow> s)"

definition tmpl_num :: "sync_context \<Rightarrow> jsnum option \<Rightarrow> string" where
  "tmpl_num ctx v = (case v of None \<Rightarrow> ''undefined'' | Some x \<Rightarrow> number_to_string ctx x)"

definition find_payee_id :: "sync_context \<Rightarrow> string \<Rightarrow> string option" where
  "find_payee_id ctx n = map_option p_id (find (\<lambda>p. p_name p = n) (payees ctx))"

section \<open>The classifier\<close>

text \<open>The fields that every entry of the first loop shares; the others are unset.\<close>

definition base_entry :: "sync_context \<Rightarrow> string \<Rightarrow> string \<Rightarrow> entry" where
  "base_entry ctx d iid =
     \<lparr> account_id = ACCOUNT ctx, date = d, cleared = Cleared, amount = None,
       payee_name = None, payee_id = None, memo = None, category_id = None,
       flag_color = None, approved = None, import_id = Some iid, id_entry = None,
       subtransactions = [] \<rparr>"

definition stock_memo :: "sync_context \<Rightarrow> Trading212Transaction \<Rightarrow> string" where
  "stock_memo ctx tx =
     tmpl_num ctx (shareCount tx) @ ''x '' @ tmpl (ticker tx) @ '' ['' @ tmpl (isin tx) @ '']''"

text \<open>The branch of \<open>Market buy\<close> and \<open>Market sell\<close>.\<close>

definition trade :: "sync_context \<Rightarrow> Trading212Transaction \<Rightarrow> string \<Rightarrow> string \<Rightarrow> entry list" where
  "trade ctx tx d iid =
     (let isInflow = (action tx = MarketSell);
          amt = js_mul (js_abs (total_tx tx)) (Fin (if isInflow then 1 else - 1));
          fee = (case conversionFee tx of None \<Rightarrow> Fin 0 | Some f \<Rightarrow> f);
          stockAmount = js_add amt fee;
          pn = ''Stock: '' @ tmpl (name tx);
          pid = find_payee_id ctx pn;
          m = stock_memo ctx tx;
          transaction = (base_entry ctx d iid)\<lparr>
             category_id := category (STOCK_CATEGORY_ID ctx),
             amount := Some amt, payee_name := Some pn, payee_id := pid, memo := Some m,
             approved := Some True \<rparr>
      in [if js_gt fee (Fin 0) then
            transaction\<lparr> subtransactions :=
              [\<lparr> sub_amount = stockAmount, sub_payee_name = Some pn, sub_payee_id = pid,
                  sub_memo = Some m, sub_category_id = category (STOCK_CATEGORY_ID ctx) \<rparr>,
               \<lparr> sub_amount = js_neg fee, sub_payee_name = Some ''Trading 212'',
                  sub_payee_id = None, sub_memo = Some ''Currency conversion fee'',
                  sub_category_id = category (CONVERSION_FEE_CATEGORY_ID ctx) \<rparr>] \<rparr>
          else transaction])"

text \<open>The \<open>switch\<close> on the action, for a transaction that the two guards let through.\<close>

definition dispatch :: "sync_context \<Rightarrow> Trading212Transaction \<Rightarrow> string \<Rightarrow> string \<Rightarrow> entry list" where
  "dispatch ctx tx d iid =
     (case action tx of
        Deposit \<Rightarrow>
          [(base_entry ctx d iid)\<lparr> amount := Some (total_tx tx),
             payee_name := Some (action_string (action tx)), memo := or_null (notes_tx tx) \<rparr>]
      | Withdrawal \<Rightarrow>
          [(base_entry ctx d iid)\<lparr> amount := Some (total_tx tx),
             payee_name := Some (action_string (action tx)), memo := or_null (notes_tx tx) \<rparr>]
      | InterestOnCash \<Rightarrow>
          [(base_entry ctx d iid)\<lparr> amount := Some (total_tx tx),
             payee_name := Some ''Interest'',
             memo := (if action tx = LendingInterest then Some ''Lending interest'' else None),
             flag_color := Some ''purple'', approved := Some (action tx = InterestOnCash) \<rparr>]
      | LendingInterest \<Rightarrow>
          [(base_entry ctx d iid)\<lparr> amount := Some (total_tx tx),
             payee_name := Some ''Interest'',
             memo := (if action tx = LendingInterest then Some ''Lending interest'' else None),
             flag_color := Some ''purple'', approved := Some (action tx = InterestOnCash) \<rparr>]
      | MarketBuy \<Rightarrow> trade ctx tx d iid
      | MarketSell \<Rightarrow> trade ctx tx d iid
      | Dividend \<Rightarrow>
          (let pn = ''Stock: '' @ tmpl (name tx)
           in [(base_entry ctx d iid)\<lparr> category_id := category (DIVIDEND_CATEGORY_ID ctx),
                 amount := Some (total_tx tx), payee_name := Some pn,
                 payee_id := find_payee_id ctx pn,
                 memo := Some (''Dividend - '' @ stock_memo ctx tx) \<rparr>])
      | CurrencyConversion \<Rightarrow>
          (if conversionFromCurrency tx = Some (accountCurrency ctx) then
             [(base_entry ctx d iid)\<lparr>
                amount := Some (js_neg (to_number (conversionFromAmount tx))),
                payee_name := Some (''Exchanged to '' @ tmpl (conversionToCurrency tx)),
                memo := or_null (notes_tx tx), approved := Some True \<rparr>]
           else if conversionToCurrency tx = Some (accountCurrency ctx) then
             [(base_entry ctx d iid)\<lparr>
                amount := conversionToAmount tx,
                payee_name := Some (''Exchanged from '' @ tmpl (conversionFromCurrency tx)),
                memo := or_null (notes_tx tx), approved := Some True \<rparr>]
           else [])
      | NewCardCost \<Rightarrow>
          [(base_entry ctx d iid)\<lparr> amount := Some (total_tx tx),
             payee_name := Some ''Trading 212'', memo := Some ''New card'' \<rparr>])"

text \<open>
  The body of the first loop: the import identity, the two guards that skip a
  transaction, then the \<open>switch\<close>. The result is what the iteration appends to
  \<open>transactionsToAdd\<close>.
\<close>

definition import_id_of :: "sync_context \<Rightarrow> Trading212Transaction \<Rightarrow> string" where
  "import_id_of ctx tx =
     createImportId (sha256_hex ctx) (dayjs_to_string ctx (timestamp tx) @ '':'' @ id_tx tx)"

definition already_imported :: "sync_context \<Rightarrow> Trading212Transaction \<Rightarrow> bool" where
  "already_imported ctx tx =
     list_ex (\<lambda>t. import_id t = Some (import_id_of ctx tx)) (existingTransactions ctx)"

definition other_currency :: "sync_context \<Rightarrow> Trading212Transaction \<Rightarrow> bool" where
  "other_currency ctx tx =
     (case totalCurrency tx of
        None \<Rightarrow> False
      | Some c \<Rightarrow> c \<noteq> [] \<and> c \<noteq> accountCurrency ctx)"

definition classify :: "sync_context \<Rightarrow> Trading212Transaction \<Rightarrow> entry list" where
  "classify ctx tx =
     (if already_imported ctx tx then []
      else if other_currency ctx tx then []
      else dispatch ctx tx (dayjs_format_date ctx (timestamp tx)) (import_id_of ctx tx))"


section \<open>The position reconciler\<close>

record position =
  quantity :: jsnum
  totalAmount :: jsnum
  unclearedId :: "string option"

text \<open>
  The memo pattern \<^verbatim>\<open>/^([\d.]+)x.+\[(.*?)\]$/\<close>. The first group is the longest run of
  digits and dots at the start, and an \<open>x\<close> follows it. The rest holds no line
  terminator and ends with a closing bracket; the greedy \<open>.+\<close> stops at the last
  opening bracket that leaves it one character at least, and the second group is what
  lies between that bracket and the final one.
\<close>

definition is_quantity_char :: "char \<Rightarrow> bool" where
  "is_quantity_char c = (is_digit 10 c \<or> c = CHR ''.'')"

definition is_line_terminator :: "char \<Rightarrow> bool" where
  "is_line_terminator c = (c = CHR 0x0A \<or> c = CHR 0x0D)"

definition match_memo :: "string \<Rightarrow> (string \<times> string) option" where
  "match_memo m =
     (let g1 = takeWhile is_quantity_char m;
          r0 = drop (length g1) m
      in if g1 = [] then None
         else (case r0 of
                 [] \<Rightarrow> None
               | c # r \<Rightarrow>
                   if c \<noteq> CHR ''x'' then None
                   else if list_ex is_line_terminator r then None
                   else if r = [] then None
                   else if last r \<noteq> CHR '']'' then None
                   else (let body = butlast r;
                             g2 = rev (takeWhile (\<lambda>b. b \<noteq> CHR ''['') (rev body))
                         in if CHR ''['' \<notin> set body then None
                            else if length body - length g2 - 1 < 1 then None
                            else Some (g1, g2))))"

definition is_stock_leg :: "sub_entry \<Rightarrow> bool" where
  "is_stock_leg sub = (case sub_memo sub of None \<Rightarrow> False | Some m \<Rightarrow> str_includes m CHR ''x'')"

definition transactionAmount :: "entry \<Rightarrow> jsnum option" where
  "transactionAmount transaction =
     (if subtransactions transaction \<noteq> [] then
        (case find is_stock_leg (subtransactions transaction) of
           None \<Rightarrow> amount transaction
         | Some stockTransaction \<Rightarrow> Some (sub_amount stockTransaction))
      else amount transaction)"

text \<open>The update of a position by a cleared entry of \<open>qty\<close> shares.\<close>

definition apply_cleared :: "position \<Rightarrow> jsnum \<Rightarrow> jsnum option \<Rightarrow> position" where
  "apply_cleared pos qty amt =
     (if js_gt (to_number amt) (Fin 0) then
        (let proportionSold = js_div qty (quantity pos)
         in pos\<lparr> quantity := js_sub (quantity pos) qty,
                 totalAmount := js_round (js_mul (totalAmount pos) (js_sub (Fin 1) proportionSold)) \<rparr>)
      else
        pos\<lparr> quantity := js_add (quantity pos) qty,
              totalAmount := js_add (totalAmount pos) (js_abs (to_number amt)) \<rparr>)"

definition skipped_by_replay :: "entry \<Rightarrow> bool" where
  "skipped_by_replay transaction =
     (\<not> (case payee_name transaction of None \<Rightarrow> False | Some n \<Rightarrow> startsWith n ''Stock:'')
      \<or> \<not> (case import_id transaction of None \<Rightarrow> False | Some i \<Rightarrow> startsWith i VERSIONED_IMPORT_PREFIX)
      \<or> (case memo transaction of None \<Rightarrow> False | Some m \<Rightarrow> startsWith m ''Dividend ''))"

definition new_position :: position where
  "new_position = \<lparr> quantity = Fin 0, totalAmount = Fin 0, unclearedId = None \<rparr>"

text \<open>The body of the second loop, on the map of positions.\<close>

definition replay_step ::
  "(string \<times> position) list \<Rightarrow> entry \<Rightarrow> error + (string \<times> position) list" where
  "replay_step ynabPositions transaction =
     (if skipped_by_replay transaction then Inr ynabPositions
      else (case (case memo transaction of None \<Rightarrow> None | Some m \<Rightarrow> match_memo m) of
              None \<Rightarrow> Inl (MemoParseError (memo transaction))
            | Some (g1, g2) \<Rightarrow>
                (let qty = parseT212StockQuantity g1;
                     pos = (case map_of ynabPositions g2 of None \<Rightarrow> new_position | Some p \<Rightarrow> p);
                     pos' =
                       (if cleared transaction = Cleared then
                          apply_cleared pos qty (transactionAmount transaction)
                        else if cleared transaction = Uncleared \<and> id_entry transaction \<noteq> None then
                          pos\<lparr> unclearedId := id_entry transaction \<rparr>
                        else pos)
                 in Inr (map_set ynabPositions g2 pos'))))"

fun replay :: "(string \<times> position) list \<Rightarrow> entry list \<Rightarrow> error + (string \<times> position) list" where
  "replay ynabPositions [] = Inr ynabPositions"
| "replay ynabPositions (transaction # rest) =
     (case replay_step ynabPositions transaction of
        Inl e \<Rightarrow> Inl e
      | Inr ynabPositions' \<Rightarrow> replay ynabPositions' rest)"

text \<open>
  The body of the third loop. The state is the pair of \<open>transactionsToAdd\<close> and
  \<open>transactionsToUpdate\<close>.
\<close>

definition reconcile_step ::
  "sync_context \<Rightarrow> entry list \<times> entry list \<Rightarrow> string \<times> position
     \<Rightarrow> error + (entry list \<times> entry list)" where
  "reconcile_step ctx st ip =
     (let isin' = fst ip; ynabPosition = snd ip
      in if js_le (quantity ynabPosition) (Fin 0) then Inr st
         else (case find (\<lambda>i. i_isin i = isin' \<and> map_of (t212Positions ctx) (i_ticker i) \<noteq> None)
                         (instruments ctx) of
                 None \<Rightarrow> Inr st
               | Some instrument \<Rightarrow>
                   (case map_of (t212Positions ctx) (i_ticker instrument) of
                      None \<Rightarrow> Inl (NoPositionError (i_ticker instrument) isin')
                    | Some t212Pos \<Rightarrow>
                        (let ynabPpl = js_round (js_mul (js_div (quantity ynabPosition) (t_quantity t212Pos))
                                                        (t_ppl t212Pos));
                             currentValue = js_add (totalAmount ynabPosition) ynabPpl;
                             pn = ''Stock: '' @ i_name instrument;
                             transaction =
                               \<lparr> account_id = ACCOUNT ctx, date = today ctx, cleared = Uncleared,
                                 amount = Some currentValue, payee_name = Some pn,
                                 payee_id = find_payee_id ctx pn,
                                 memo = Some (number_to_string ctx (js_div (quantity ynabPosition) (Fin 10000000000))
                                              @ ''x '' @ i_shortName instrument @ '' ['' @ isin' @ '']''),
                                 category_id = category (STOCK_CATEGORY_ID ctx),
                                 flag_color = None, approved = Some True, import_id = None,
                                 id_entry = None, subtransactions = [] \<rparr>
                         in if (case unclearedId ynabPosition of None \<Rightarrow> False | Some u \<Rightarrow> u \<noteq> []) then
                              Inr (fst st, snd st @ [transaction\<lparr> id_entry := unclearedId ynabPosition \<rparr>])
                            else
                              Inr (fst st @ [transaction\<lparr> import_id :=
                                     Some (createImportId (sha256_hex ctx)
                                            (isin' @ '':'' @ today ctx @ '':'' @ number_to_string ctx currentValue)) \<rparr>],
                                   snd st)))))"

fun reconcile ::
  "sync_context \<Rightarrow> entry list \<times> entry list \<Rightarrow> (string \<times> position) list
     \<Rightarrow> error + (entry list \<times> entry list)" where
  "reconcile ctx st [] = Inr st"
| "reconcile ctx st (ip # rest) =
     (case reconcile_step ctx st ip of
        Inl e \<Rightarrow> Inl e
      | Inr st' \<Rightarrow> reconcile ctx st' rest)"

section \<open>The orchestrator\<close>




text \<open>The last step of \<open>getTrading212Transactions\<close>: the first row that fails ends the run.\<close>

fun parse_rows :: "raw_row list \<Rightarrow> error + Trading212Transaction list" where
  "parse_rows [] = Inr []"
| "parse_rows (data # rest) =
     (case parseTransaction data of
        Inl e \<Rightarrow> Inl e
      | Inr tx \<Rightarrow> (case parse_rows rest of Inl e \<Rightarrow> Inl e | Inr txs \<Rightarrow> Inr (tx # txs)))"

section \<open>The round trip of money texts\<close>





text \<open>A ledger amount is well defined when it is a number and that number is an integer.\<close>

definition well_defined_integer :: "jsnum option \<Rightarrow> bool" where
  "well_defined_integer v = (case v of Some (Fin r) \<Rightarrow> of_int \<lfloor>r\<rfloor> = r | _ \<Rightarrow> False)"

section \<open>Sample inputs\<close>

text \<open>
  A context and a deposit on which the properties below are exercised. The library
  functions of the context are stand-ins: a constant digest, and renderings that are
  enough for the samples.
\<close>

definition sample_context :: sync_context where
  "sample_context =
     \<lparr> BUDGET = ''budget-1'', ACCOUNT = ''account-1'',
       STOCK_CATEGORY_ID = ''cat-stock'', DIVIDEND_CATEGORY_ID = [],
       CONVERSION_FEE_CATEGORY_ID = ''cat-fee'',
       today = ''2024-06-01'', accountCurrency = ''GBP'',
       instruments = [], openPositions = [], payees = [], existingTransactions = [],
       sha256_hex = (\<lambda>data. ''9f86d081884c7d659a2feaa0c55ad015a3bf4f1b2b0b822cd15d6c15b0f00a08''),
       number_to_string = (\<lambda>x. ''1''),
       dayjs_to_string = (\<lambda>t. t),
       dayjs_format_date = take 10 \<rparr>"

definition sample_deposit :: Trading212Transaction where
  "sample_deposit =
     \<lparr> action = Deposit, timestamp = ''2024-05-01 09:30:00'',
       isin = None, ticker = None, name = None, shareCount = None,
       pricePerShare = None, pricePerShareCurrency = None, exchangeRate = None,
       result = None, resultCurrency = None, total_tx = Fin 100000, totalCurrency = Some ''GBP'',
       withholdingTax = None, withholdingTaxCurrency = None, notes_tx = None, id_tx = ''tx-1'',
       conversionFromAmount = None, conversionFromCurrency = None,
       conversionToAmount = None, conversionToCurrency = None,
       conversionFee = None, conversionFeeCurrency = None \<rparr>"

text \<open>The ledger entry of that deposit, as an earlier run created it.\<close>

definition sample_imported :: entry where
  "sample_imported =
     \<lparr> account_id = ''account-1'', date = ''2024-05-01'', cleared = Cleared,
       amount = Some (Fin 100000), payee_name = Some ''Deposit'', payee_id = None, memo = None,
       category_id = None, flag_color = None, approved = Some True,
       import_id = Some ''T212-v14:9f86d081884c7d659a2feaa0c55'', id_entry = Some ''entry-1'',
       subtransactions = [] \<rparr>"




text \<open>
  Three currency conversions whose matching leg, or other leg, has no amount: out of the
  account currency, into it, and between the account currency and itself.
\<close>

definition sample_conversion :: Trading212Transaction where
  "sample_conversion = sample_deposit\<lparr> action := CurrencyConversion, id_tx := ''tx-4'',
      total_tx := Fin 0, totalCurrency := None,
      conversionFromAmount := None, conversionFromCurrency := Some ''GBP'',
      conversionToAmount := Some (Fin 12500), conversionToCurrency := Some ''USD'' \<rparr>"

definition sample_conversion_to :: Trading212Transaction where
  "sample_conversion_to = sample_conversion\<lparr>
      conversionFromAmount := Some (Fin 12500), conversionFromCurrency := Some ''USD'',
      conversionToAmount := None, conversionToCurrency := Some ''GBP'' \<rparr>"

definition sample_conversion_both :: Trading212Transaction where
  "sample_conversion_both = sample_conversion\<lparr>
      conversionFromAmount := Some (Fin 10000), conversionFromCurrency := Some ''GBP'',
      conversionToAmount := None, conversionToCurrency := Some ''GBP'' \<rparr>"

text \<open>An instrument of the catalog and a position that the replay has derived for it.\<close>

definition sample_instrument :: instrument where
  "sample_instrument =
     \<lparr> i_isin = ''US0378331005'', i_ticker = ''AAPL_US_EQ'', i_name = ''Apple'', i_shortName = ''AAPL'' \<rparr>"

definition sample_position :: position where
  "sample_position = \<lparr> quantity = Fin 100000000000, totalAmount = Fin 1005000, unclearedId = None \<rparr>"

text \<open>
  Three ledger entries of one security: a cleared purchase of 10 shares for 1000, a
  cleared sale of 4 shares, and a cleared sale whose memo counts no share.
\<close>

definition sample_stock_buy :: entry where
  "sample_stock_buy =
     \<lparr> account_id = ''account-1'', date = ''2024-05-02'', cleared = Cleared,
       amount = Some (Fin (- 1000)), payee_name = Some ''Stock: Apple'', payee_id = None,
       memo = Some ''10x AAPL [US0378331005]'', category_id = None, flag_color = None,
       approved = Some True, import_id = Some ''T212-v14:1c0c3e5b7a9d2f4e6a8c0b2d4f6'',
       id_entry = Some ''entry-2'', subtransactions = [] \<rparr>"

definition sample_stock_sale :: entry where
  "sample_stock_sale = sample_stock_buy\<lparr> date := ''2024-05-20'', amount := Some (Fin 500),
      memo := Some ''4x AAPL [US0378331005]'',
      import_id := Some ''T212-v14:7e9a1c3b5d7f9b1d3f5a7c9e1b3'', id_entry := Some ''entry-3'' \<rparr>"

definition sample_zero_sale :: entry where
  "sample_zero_sale = sample_stock_sale\<lparr> memo := Some ''0x AAPL [US0378331005]'' \<rparr>"


section \<open>Properties\<close>

subsection \<open>Digits and the codec\<close>

lemma is_digit_10_iff: "is_digit 10 c \<longleftrightarrow> c \<in> set ''0123456789''"
  by (simp add: is_digit_def digit_val_def split: option.splits)



lemma split_on_not_Nil: "split_on c s \<noteq> []"
  by (induction s) (auto split: list.splits)

lemma split_on_pieces: "p \<in> set (split_on c s) \<Longrightarrow> set p \<subseteq> set s - {c}"
proof (induction s arbitrary: p)
  case Nil
  then show ?case by simp
next
  case (Cons x xs)
  show ?case
  proof (cases "x = c")
    case True
    with Cons show ?thesis by auto
  next
    case False
    obtain q qs where q: "split_on c xs = q # qs"
      using split_on_not_Nil [of c xs] by (cases "split_on c xs") auto
    with Cons.prems False have "p = x # q \<or> p \<in> set qs" by auto
    then show ?thesis
    proof
      assume "p = x # q"
      moreover have "set q \<subseteq> set xs - {c}" using Cons.IH [of q] q by simp
      ultimately show ?thesis using False by auto
    next
      assume "p \<in> set qs"
      then have "set p \<subseteq> set xs - {c}" using Cons.IH [of p] q by simp
      then show ?thesis by auto
    qed
  qed
qed

lemma parseInt_digits:
  assumes "ds \<noteq> []" and "\<forall>c \<in> set ds. is_digit 10 c"
  shows "parseInt ds = Fin (of_nat (digits_value 10 ds))"
proof -
  obtain c r where ds: "ds = c # r" using assms(1) by (cases ds) auto
  have c: "is_digit 10 c" using assms(2) ds by simp
  have nd: "\<not> is_digit 10 CHR ''-''" "\<not> is_digit 10 CHR ''+''"
    "\<not> is_digit 10 CHR ''x''" "\<not> is_digit 10 CHR ''X''"
    by (simp_all add: is_digit_10_iff)
  have nsp: "\<not> is_space c"
    using c by (auto simp: is_digit_10_iff is_space_def)
  have nm: "c \<noteq> CHR ''-''" and np: "c \<noteq> CHR ''+''"
    using c nd by auto
  have nx: "CHR ''x'' \<notin> set ds" "CHR ''X'' \<notin> set ds"
    using assms(2) nd by blast+
  have nhex: "take 2 ds \<noteq> ''0x''" "take 2 ds \<noteq> ''0X''"
  proof -
    have "set (take 2 ds) \<subseteq> set ds" by (rule set_take_subset)
    with nx show "take 2 ds \<noteq> ''0x''" "take 2 ds \<noteq> ''0X''" by auto
  qed
  have tw: "takeWhile (is_digit 10) ds = ds"
    using assms(2) by (simp add: takeWhile_eq_all_conv)
  have dw: "dropWhile is_space ds = ds"
    using nsp ds by simp
  have neg: "(case ds of [] \<Rightarrow> False | c # _ \<Rightarrow> c = CHR ''-'') = False"
    using nm ds by simp
  have s1: "(case ds of [] \<Rightarrow> [] | c # r \<Rightarrow> if c = CHR ''-'' \<or> c = CHR ''+'' then r else ds) = ds"
    using nm np ds by simp
  have hex: "(take 2 ds = ''0x'' \<or> take 2 ds = ''0X'') = False"
    using nhex by blast
  show ?thesis
    unfolding parseInt_def Let_def dw neg s1 hex if_False tw
    using assms(1) by (simp only: if_False)
qed

lemma parseAmount_parts:
  "split_on CHR ''.'' txt = f # rest \<Longrightarrow>
   parseAmount txt p k =
     js_mul (parseInt (f @ padEnd (case rest of [] \<Rightarrow> [] | d # _ \<Rightarrow> d) p CHR ''0'')) (Fin (of_int k))"
  by (simp add: parseAmount_def split: list.splits)

lemma parseAmount_quantity_chars:
  assumes "\<forall>c \<in> set g. is_quantity_char c" and "0 < prec"
  shows "\<exists>n::nat. parseAmount g prec 1 = Fin (of_nat n)"
proof -
  obtain f rest where parts: "split_on CHR ''.'' g = f # rest"
    using split_on_not_Nil [of "CHR ''.''" g] by (cases "split_on CHR ''.'' g") auto
  define d where "d = (case rest of [] \<Rightarrow> [] | d # _ \<Rightarrow> d)"
  have pieces: "\<forall>c \<in> set p. is_digit 10 c" if "p \<in> set (split_on CHR ''.'' g)" for p
    using split_on_pieces [OF that] assms(1) by (auto simp: is_quantity_char_def)
  have f: "\<forall>c \<in> set f. is_digit 10 c"
    using pieces [of f] by (simp add: parts)
  have d: "\<forall>c \<in> set d. is_digit 10 c"
  proof (cases rest)
    case Nil
    then show ?thesis by (simp add: d_def)
  next
    case (Cons p1 ps')
    then show ?thesis using pieces [of p1] by (simp add: parts d_def)
  qed
  have z: "is_digit 10 CHR ''0''" by (simp add: is_digit_10_iff)
  define s where "s = f @ padEnd d prec CHR ''0''"
  have all: "\<forall>c \<in> set s. is_digit 10 c"
    using f d z by (auto simp: padEnd_def s_def)
  have "length (padEnd d prec CHR ''0'') \<ge> prec"
    by (simp add: padEnd_def)
  with assms(2) have ne: "s \<noteq> []" by (auto simp: s_def)
  have "parseAmount g prec 1 = js_mul (parseInt s) (Fin 1)"
    using parseAmount_parts [OF parts, of prec 1] by (simp add: s_def d_def)
  also have "\<dots> = Fin (of_nat (digits_value 10 s))"
    using parseInt_digits [OF ne all] by simp
  finally show ?thesis by blast
qed

lemma match_memo_quantity:
  assumes "match_memo m = Some (g1, g2)"
  shows "\<exists>n::nat. parseT212StockQuantity g1 = Fin (of_nat n)"
proof -
  from assms have g1: "g1 = takeWhile is_quantity_char m"
    by (auto simp: match_memo_def Let_def split: if_splits list.splits)
  then have "\<forall>c \<in> set g1. is_quantity_char c"
    by (auto dest: set_takeWhileD)
  then show ?thesis
    unfolding parseT212StockQuantity_def by (rule parseAmount_quantity_chars) simp
qed

lemma foldl_digits_acc:
  "foldl (\<lambda>acc c. acc * r + g c) a ys = a * r ^ length ys + foldl (\<lambda>acc c. acc * r + g c) (0::nat) ys"
proof (induction ys arbitrary: a)
  case Nil
  then show ?case by simp
next
  case (Cons y ys)
  show ?case
    using Cons.IH [of "a * r + g y"] Cons.IH [of "g y"]
    by (simp add: algebra_simps)
qed

lemma digits_value_append:
  "digits_value r (xs @ ys) = digits_value r xs * r ^ length ys + digits_value r ys"
  unfolding digits_value_def foldl_append
  by (rule foldl_digits_acc)

lemma digits_value_zeros: "digits_value r (replicate k CHR ''0'') = 0"
  by (induction k) (simp_all add: digits_value_def digit_val_def)

lemma digits_value_Nil: "digits_value r [] = 0"
  by (simp add: digits_value_def)

lemma split_on_none: "c \<notin> set s \<Longrightarrow> split_on c s = [s]"
  by (induction s) auto


lemma not_digit_dot: "\<not> is_digit 10 CHR ''.''"
  by (simp add: is_digit_10_iff)

lemma digits_no_dot: "\<forall>c \<in> set ds. is_digit 10 c \<Longrightarrow> CHR ''.'' \<notin> set ds"
  using not_digit_dot by blast



lemma parseAmount_whole:
  assumes "\<forall>c \<in> set ip. is_digit 10 c" and "0 < prec"
  shows "parseAmount ip prec k = Fin (of_nat (digits_value 10 ip * 10 ^ prec) * of_int k)"
proof -
  have parts: "split_on CHR ''.'' ip = ip # []"
    using split_on_none digits_no_dot assms(1) by blast
  define s where "s = ip @ padEnd [] prec CHR ''0''"
  have z: "is_digit 10 CHR ''0''" by (simp add: is_digit_10_iff)
  have all: "\<forall>c \<in> set s. is_digit 10 c"
    using assms(1) z by (auto simp: padEnd_def s_def)
  have ne: "s \<noteq> []" using assms(2) by (auto simp: s_def padEnd_def)
  have v: "digits_value 10 s = digits_value 10 ip * 10 ^ prec"
    unfolding s_def by (simp add: padEnd_def digits_value_append digits_value_zeros)
  have "parseAmount ip prec k = js_mul (parseInt s) (Fin (of_int k))"
    using parseAmount_parts [OF parts, of prec k] by (simp add: s_def)
  then show ?thesis
    using parseInt_digits [OF ne all] v by simp
qed

subsection \<open>Import identities\<close>

lemma VERSIONED_IMPORT_PREFIX_eq: "VERSIONED_IMPORT_PREFIX = ''T212-v14:''"
  by (simp add: VERSIONED_IMPORT_PREFIX_def IMPORT_PREFIX_def IMPORT_ID_VERSION_def show_nat.simps)

text \<open>
  Claim C4. For every seed, \<open>createImportId\<close> is the first 36 characters of the
  versioned prefix \<open>T212-v14:\<close> followed by the hexadecimal SHA-256 digest of the seed.
  The result is a function of the seed alone, it has at most 36 characters, exactly 36
  for a digest of 64 characters, and it begins with the versioned prefix.
\<close>

theorem createImportId_spec:
  "createImportId H seed = take 36 (''T212-v'' @ show_nat IMPORT_ID_VERSION @ '':'' @ H seed)
   \<and> length (createImportId H seed) \<le> 36
   \<and> startsWith (createImportId H seed) VERSIONED_IMPORT_PREFIX
   \<and> (length (H seed) = 64 \<longrightarrow> length (createImportId H seed) = 36)"
  by (simp add: createImportId_def startsWith_def VERSIONED_IMPORT_PREFIX_eq
      IMPORT_ID_VERSION_def show_nat.simps)

theorem createImportId_spec_witness:
  "length (sha256_hex sample_context ''2024-05-01 09:30:00:tx-1'') = 64
   \<and> createImportId (sha256_hex sample_context) ''2024-05-01 09:30:00:tx-1''
       = ''T212-v14:9f86d081884c7d659a2feaa0c55''
   \<and> length (createImportId (sha256_hex sample_context) ''2024-05-01 09:30:00:tx-1'') = 36"
  using createImportId_spec [of "sha256_hex sample_context" "''2024-05-01 09:30:00:tx-1''"]
  by (simp add: sample_context_def IMPORT_ID_VERSION_def show_nat.simps)

subsection \<open>The classifier\<close>

text \<open>
  Claim C2. When the import identity derived from a transaction, with the seed made of
  its timestamp, a colon and its source identifier, is the \<open>import_id\<close> of an entry
  that the ledger already holds, classifying the transaction produces no entry.
\<close>

theorem classify_already_imported:
  assumes "e \<in> set (existingTransactions ctx)"
    and "import_id e =
           Some (createImportId (sha256_hex ctx) (dayjs_to_string ctx (timestamp tx) @ '':'' @ id_tx tx))"
  shows "classify ctx tx = []"
proof -
  have "already_imported ctx tx"
    unfolding already_imported_def import_id_of_def list_ex_iff using assms by blast
  then show ?thesis by (simp add: classify_def)
qed

theorem classify_already_imported_witness:
  "sample_imported \<in> set (existingTransactions (sample_context\<lparr>existingTransactions := [sample_imported]\<rparr>))
   \<and> import_id sample_imported =
       Some (createImportId (sha256_hex sample_context)
              (dayjs_to_string sample_context (timestamp sample_deposit) @ '':'' @ id_tx sample_deposit))
   \<and> classify (sample_context\<lparr>existingTransactions := [sample_imported]\<rparr>) sample_deposit = []"
proof -
  let ?ctx = "sample_context\<lparr>existingTransactions := [sample_imported]\<rparr>"
  have m: "sample_imported \<in> set (existingTransactions ?ctx)"
    by simp
  have i: "import_id sample_imported =
             Some (createImportId (sha256_hex ?ctx)
                    (dayjs_to_string ?ctx (timestamp sample_deposit) @ '':'' @ id_tx sample_deposit))"
    by (simp add: sample_imported_def sample_context_def createImportId_def
        VERSIONED_IMPORT_PREFIX_eq)
  from classify_already_imported [OF m i] m i show ?thesis by simp
qed

lemma sample_guards:
  "\<not> already_imported sample_context tx"
  by (simp add: already_imported_def sample_context_def)

lemma sample_currency:
  "other_currency sample_context tx \<longleftrightarrow> (\<exists>c. totalCurrency tx = Some c \<and> c \<noteq> [] \<and> c \<noteq> ''GBP'')"
  by (simp add: other_currency_def sample_context_def split: option.splits)





text \<open>
  Claim C10, as stated, fails for a conversion between the account currency and itself:
  the first branch reads the amount of the \<open>from\<close> leg, which is present, and the
  absent amount of the \<open>to\<close> leg is never read.
\<close>

theorem currency_conversion_counterexample:
  "action sample_conversion_both = CurrencyConversion
   \<and> conversionToCurrency sample_conversion_both = Some (accountCurrency sample_context)
   \<and> conversionToAmount sample_conversion_both = None
   \<and> map amount (classify sample_context sample_conversion_both) = [Some (Fin (- 10000))]
   \<and> well_defined_integer (Some (Fin (- 10000)))"
  by (simp add: classify_def sample_guards sample_currency dispatch_def base_entry_def
      sample_conversion_both_def sample_conversion_def sample_deposit_def well_defined_integer_def
      to_number_def) (simp add: sample_context_def)

text \<open>
  Claim C10, amended. For a currency conversion that the two guards let through: when
  \<open>conversionFromCurrency\<close> is the account currency and \<open>conversionFromAmount\<close> is
  absent, one entry is produced and its amount is NaN; when \<open>conversionFromCurrency\<close>
  is not the account currency, \<open>conversionToCurrency\<close> is, and \<open>conversionToAmount\<close>
  is absent, one entry is produced and its amount is \<open>undefined\<close>. In both cases the
  amount is not a well-defined integer.
\<close>

theorem currency_conversion_unchecked:
  assumes "action tx = CurrencyConversion"
    and "\<not> already_imported ctx tx"
    and "\<not> other_currency ctx tx"
  shows "(conversionFromCurrency tx = Some (accountCurrency ctx) \<and> conversionFromAmount tx = None \<longrightarrow>
           (\<exists>e. classify ctx tx = [e] \<and> amount e = Some NaN \<and> \<not> well_defined_integer (amount e)))
       \<and> (conversionFromCurrency tx \<noteq> Some (accountCurrency ctx)
            \<and> conversionToCurrency tx = Some (accountCurrency ctx) \<and> conversionToAmount tx = None \<longrightarrow>
           (\<exists>e. classify ctx tx = [e] \<and> amount e = None \<and> \<not> well_defined_integer (amount e)))"
  using assms
  by (simp add: classify_def dispatch_def base_entry_def to_number_def well_defined_integer_def)

theorem currency_conversion_unchecked_witness:
  "action sample_conversion = CurrencyConversion
   \<and> \<not> already_imported sample_context sample_conversion
   \<and> \<not> other_currency sample_context sample_conversion
   \<and> conversionFromCurrency sample_conversion = Some (accountCurrency sample_context)
   \<and> conversionFromAmount sample_conversion = None
   \<and> map amount (classify sample_context sample_conversion) = [Some NaN]
   \<and> action sample_conversion_to = CurrencyConversion
   \<and> \<not> already_imported sample_context sample_conversion_to
   \<and> \<not> other_currency sample_context sample_conversion_to
   \<and> conversionFromCurrency sample_conversion_to \<noteq> Some (accountCurrency sample_context)
   \<and> conversionToCurrency sample_conversion_to = Some (accountCurrency sample_context)
   \<and> conversionToAmount sample_conversion_to = None
   \<and> map amount (classify sample_context sample_conversion_to) = [None]"
proof -
  have a: "action sample_conversion = CurrencyConversion" "action sample_conversion_to = CurrencyConversion"
    by (simp_all add: sample_conversion_to_def sample_conversion_def)
  have c: "\<not> other_currency sample_context sample_conversion"
    "\<not> other_currency sample_context sample_conversion_to"
    by (simp_all add: sample_currency sample_conversion_to_def sample_conversion_def)
  have f: "conversionFromCurrency sample_conversion = Some (accountCurrency sample_context)"
    "conversionFromAmount sample_conversion = None"
    by (simp_all add: sample_conversion_def sample_context_def)
  have t: "conversionFromCurrency sample_conversion_to \<noteq> Some (accountCurrency sample_context)"
    "conversionToCurrency sample_conversion_to = Some (accountCurrency sample_context)"
    "conversionToAmount sample_conversion_to = None"
    by (simp_all add: sample_conversion_to_def sample_context_def)
  from currency_conversion_unchecked [OF a(1) sample_guards c(1)] f
  have 1: "map amount (classify sample_context sample_conversion) = [Some NaN]" by auto
  from currency_conversion_unchecked [OF a(2) sample_guards c(2)] t
  have 2: "map amount (classify sample_context sample_conversion_to) = [None]" by auto
  from 1 2 a c f t sample_guards show ?thesis by simp
qed

subsection \<open>The orchestrator\<close>



subsection \<open>The position reconciler\<close>

lemma reconcile_step_no_error: "reconcile_step ctx st ip \<noteq> Inl e"
proof -
  have "map_of (t212Positions ctx) (i_ticker i) \<noteq> None"
    if "find (\<lambda>i. i_isin i = fst ip \<and> map_of (t212Positions ctx) (i_ticker i) \<noteq> None) (instruments ctx) = Some i"
    for i
    using that by (auto simp: find_Some_iff)
  then show ?thesis
    by (auto simp: reconcile_step_def Let_def split: option.splits)
qed

lemma reconcile_no_error: "reconcile ctx st ps \<noteq> Inl e"
  by (induction ps arbitrary: st) (auto simp: reconcile_step_no_error split: sum.splits)

text \<open>
  Claim C8, as stated, fails: with an instrument of the catalog that has the ISIN and no
  open position for its ticker, a position of positive quantity is skipped, and the
  reconciler returns without an error and without an entry.
\<close>

theorem reconcile_skips_counterexample:
  "js_gt (quantity sample_position) (Fin 0)
   \<and> map i_isin (instruments (sample_context\<lparr>instruments := [sample_instrument]\<rparr>)) = [''US0378331005'']
   \<and> map_of (t212Positions (sample_context\<lparr>instruments := [sample_instrument]\<rparr>)) (i_ticker sample_instrument) = None
   \<and> reconcile (sample_context\<lparr>instruments := [sample_instrument]\<rparr>) ([], [])
        [(''US0378331005'', sample_position)] = Inr ([], [])"
  by (simp add: reconcile_step_def t212Positions_def sample_position_def js_gt_def js_le_def
      sample_instrument_def sample_context_def)

text \<open>
  Claim C8, amended. For an ISIN with positive replayed quantity, when no instrument of
  the catalog has both that ISIN and a ticker with an open position, the ISIN is
  skipped without error; this covers an ISIN that no instrument has and an ISIN whose
  instruments have no open position. The search for the instrument only accepts one
  whose ticker has an open position, so the error for a missing position is never
  raised: no step of the third loop, and no run of it, fails.
\<close>

theorem reconcile_skips_without_live_position:
  "(js_gt (quantity pos) (Fin 0)
     \<and> \<not> (\<exists>i \<in> set (instruments ctx). i_isin i = isin' \<and> map_of (t212Positions ctx) (i_ticker i) \<noteq> None)
     \<longrightarrow> reconcile_step ctx st (isin', pos) = Inr st)
   \<and> (\<forall>ip e. reconcile_step ctx st ip \<noteq> Inl e)
   \<and> (\<forall>ps e. reconcile ctx st ps \<noteq> Inl e)"
proof -
  have "reconcile_step ctx st (isin', pos) = Inr st"
    if "\<not> (\<exists>i \<in> set (instruments ctx). i_isin i = isin' \<and> map_of (t212Positions ctx) (i_ticker i) \<noteq> None)"
  proof -
    from that have "find (\<lambda>i. i_isin i = isin' \<and> map_of (t212Positions ctx) (i_ticker i) \<noteq> None)
        (instruments ctx) = None"
      by (auto simp: find_None_iff)
    then show ?thesis by (simp add: reconcile_step_def)
  qed
  then show ?thesis
    using reconcile_step_no_error reconcile_no_error by blast
qed

theorem reconcile_skips_without_live_position_witness:
  "js_gt (quantity sample_position) (Fin 0)
   \<and> \<not> (\<exists>i \<in> set (instruments (sample_context\<lparr>instruments := [sample_instrument]\<rparr>)).
          i_isin i = ''US0378331005''
          \<and> map_of (t212Positions (sample_context\<lparr>instruments := [sample_instrument]\<rparr>)) (i_ticker i) \<noteq> None)
   \<and> reconcile_step (sample_context\<lparr>instruments := [sample_instrument]\<rparr>) ([], [])
        (''US0378331005'', sample_position) = Inr ([], [])"
proof -
  let ?ctx = "sample_context\<lparr>instruments := [sample_instrument]\<rparr>"
  have q: "js_gt (quantity sample_position) (Fin 0)"
    by (simp add: sample_position_def js_gt_def)
  have n: "\<not> (\<exists>i \<in> set (instruments ?ctx). i_isin i = ''US0378331005''
          \<and> map_of (t212Positions ?ctx) (i_ticker i) \<noteq> None)"
    by (simp add: t212Positions_def sample_context_def)
  from reconcile_skips_without_live_position [of sample_position ?ctx "''US0378331005''" "([], [])"] q n
  show ?thesis by blast
qed

lemma replay_step_cleared:
  assumes "\<not> skipped_by_replay e" and "memo e = Some m" and "match_memo m = Some (g1, g2)"
    and "cleared e = Cleared"
  shows "replay_step ps e =
           Inr (map_set ps g2
                 (apply_cleared (case map_of ps g2 of None \<Rightarrow> new_position | Some p \<Rightarrow> p)
                    (parseT212StockQuantity g1) (transactionAmount e)))"
  using assms by (simp add: replay_step_def Let_def)



lemma apply_cleared_from_zero:
  assumes "js_gt (to_number amt) (Fin 0)" and "quantity pos = Fin 0" and "totalAmount pos = Fin 0"
    and "0 \<le> q"
  shows "apply_cleared pos (Fin q) amt = pos\<lparr> quantity := Fin (- q), totalAmount := NaN \<rparr>"
    and "js_div (Fin q) (quantity pos) = (if q = 0 then NaN else PosInf)"
  using assms by (auto simp: apply_cleared_def Let_def js_sub_def inf_of_sign_def)

lemma match_memo_samples:
  "match_memo ''10x AAPL [US0378331005]'' = Some (''10'', ''US0378331005'')"
  "match_memo ''4x AAPL [US0378331005]'' = Some (''4'', ''US0378331005'')"
  "match_memo ''0x AAPL [US0378331005]'' = Some (''0'', ''US0378331005'')"
  by (simp_all add: match_memo_def is_quantity_char_def is_digit_10_iff is_line_terminator_def)

lemma quantity_samples:
  "parseT212StockQuantity ''10'' = Fin 100000000000"
  "parseT212StockQuantity ''4'' = Fin 40000000000"
  "parseT212StockQuantity ''0'' = Fin 0"
  unfolding parseT212StockQuantity_def
  by (subst parseAmount_whole; simp add: is_digit_10_iff digits_value_def digit_val_def)+

lemma sample_not_skipped:
  "\<not> skipped_by_replay sample_stock_buy" "\<not> skipped_by_replay sample_stock_sale"
  "\<not> skipped_by_replay sample_zero_sale"
  by (simp_all add: skipped_by_replay_def sample_zero_sale_def sample_stock_sale_def
      sample_stock_buy_def startsWith_def VERSIONED_IMPORT_PREFIX_eq)




lemma sample_replay_zero_sale:
  "replay [] [sample_zero_sale] =
     Inr [(''US0378331005'', \<lparr> quantity = Fin 0, totalAmount = NaN, unclearedId = None \<rparr>)]"
proof -
  have "replay_step [] sample_zero_sale =
     Inr [(''US0378331005'', \<lparr> quantity = Fin 0, totalAmount = NaN, unclearedId = None \<rparr>)]"
    by (subst replay_step_cleared [OF sample_not_skipped(3) _ match_memo_samples(3)])
       (simp_all add: sample_zero_sale_def sample_stock_sale_def sample_stock_buy_def
          quantity_samples new_position_def apply_cleared_def
          transactionAmount_def to_number_def js_gt_def js_sub_def Let_def)
  then show ?thesis by simp
qed




text \<open>
  Claim C9, as stated, fails on the quantity: a sale whose memo counts zero shares,
  replayed before any purchase, divides zero by zero and leaves the quantity at zero,
  which is not negative.
\<close>

theorem sale_before_purchase_counterexample:
  "\<not> skipped_by_replay sample_zero_sale \<and> cleared sample_zero_sale = Cleared
   \<and> js_gt (to_number (transactionAmount sample_zero_sale)) (Fin 0)
   \<and> replay [] [sample_zero_sale] =
        Inr [(''US0378331005'', \<lparr> quantity = Fin 0, totalAmount = NaN, unclearedId = None \<rparr>)]
   \<and> \<not> js_less (Fin 0) (Fin 0)"
  using sample_not_skipped(3) sample_replay_zero_sale
  by (simp add: sample_zero_sale_def sample_stock_sale_def sample_stock_buy_def
      transactionAmount_def to_number_def js_gt_def)

text \<open>
  Claim C9, amended. When a cleared entry of positive amount is replayed for an ISIN
  whose position has quantity 0 and total amount 0, as it has before any cleared entry
  of that ISIN, the share count \<open>n\<close> parsed from the memo is a natural number, the
  proportion sold is \<open>n / 0\<close>, that is NaN for \<open>n = 0\<close> and positive infinity
  otherwise, the total amount becomes NaN, and the quantity becomes \<open>- n\<close>, which is
  negative exactly when \<open>n\<close> is positive. There is no guard: the step returns this
  position.
\<close>

theorem sale_before_purchase:
  assumes "\<not> skipped_by_replay e" and "memo e = Some m" and "match_memo m = Some (g1, g2)"
    and "cleared e = Cleared"
    and "js_gt (to_number (transactionAmount e)) (Fin 0)"
    and "pos = (case map_of ps g2 of None \<Rightarrow> new_position | Some p \<Rightarrow> p)"
    and "quantity pos = Fin 0" and "totalAmount pos = Fin 0"
  shows "\<exists>n::nat. parseT212StockQuantity g1 = Fin (of_nat n)
           \<and> js_div (Fin (of_nat n)) (quantity pos) = (if n = 0 then NaN else PosInf)
           \<and> replay_step ps e =
               Inr (map_set ps g2 (pos\<lparr> quantity := Fin (- of_nat n), totalAmount := NaN \<rparr>))
           \<and> js_less (Fin (- of_nat n)) (Fin 0) = (0 < n)"
proof -
  obtain n :: nat where n: "parseT212StockQuantity g1 = Fin (of_nat n)"
    using match_memo_quantity [OF assms(3)] by blast
  have q: "(0::rat) \<le> of_nat n" by simp
  have "replay_step ps e = Inr (map_set ps g2 (apply_cleared pos (Fin (of_nat n)) (transactionAmount e)))"
    using replay_step_cleared [OF assms(1-4)] n assms(6) by simp
  moreover note apply_cleared_from_zero [OF assms(5) assms(7) assms(8) q]
  ultimately show ?thesis using n by auto
qed

theorem sale_before_purchase_witness:
  "\<not> skipped_by_replay sample_stock_sale
   \<and> memo sample_stock_sale = Some ''4x AAPL [US0378331005]''
   \<and> match_memo ''4x AAPL [US0378331005]'' = Some (''4'', ''US0378331005'')
   \<and> cleared sample_stock_sale = Cleared
   \<and> js_gt (to_number (transactionAmount sample_stock_sale)) (Fin 0)
   \<and> map_of ([] :: (string \<times> position) list) ''US0378331005'' = None
   \<and> quantity new_position = Fin 0 \<and> totalAmount new_position = Fin 0
   \<and> replay_step [] sample_stock_sale =
       Inr [(''US0378331005'', \<lparr> quantity = Fin (- 40000000000), totalAmount = NaN, unclearedId = None \<rparr>)]"
proof -
  have m: "memo sample_stock_sale = Some ''4x AAPL [US0378331005]''"
    and c: "cleared sample_stock_sale = Cleared"
    and a: "js_gt (to_number (transactionAmount sample_stock_sale)) (Fin 0)"
    by (simp_all add: sample_stock_sale_def sample_stock_buy_def transactionAmount_def
        to_number_def js_gt_def)
  have p: "new_position = (case map_of ([] :: (string \<times> position) list) ''US0378331005'' of
             None \<Rightarrow> new_position | Some p \<Rightarrow> p)"
    by simp
  have z: "quantity new_position = Fin 0" "totalAmount new_position = Fin 0"
    by (simp_all add: new_position_def)
  from sale_before_purchase [OF sample_not_skipped(2) m match_memo_samples(2) c a p z]
  have "replay_step [] sample_stock_sale =
       Inr [(''US0378331005'', \<lparr> quantity = Fin (- 40000000000), totalAmount = NaN, unclearedId = None \<rparr>)]"
    by (auto simp: quantity_samples new_position_def)
  with m c a z sample_not_skipped(2) match_memo_samples(2) show ?thesis by simp
qed

subsection \<open>The round trip of money texts\<close>



lemma show_nat_not_Nil: "show_nat n \<noteq> []"
  by (subst show_nat.simps) simp













subsection \<open>The share count of a transaction\<close>











end
